theory Spec2Isabelle
  imports Main "HOL-Library.Word"
begin

section \<open>The Nomad Variables certificate store (package acme, NomadStore)\<close>

text \<open>
  A shallow embedding of the NomadStore of package \<^verbatim>\<open>acme\<close>: an ACME store whose accounts
  and certificates are cached in memory and persisted as Nomad Variables.

  Go values are modelled as follows.
  \<^item> A pointer \<^verbatim>\<open>*T\<close> is a \<open>T option\<close>; \<open>None\<close> is the nil pointer. The store never
    compares or mutates the pointee, so a pointer is modelled by the value it points to.
  \<^item> The slice \<^verbatim>\<open>[]*CertAndStore\<close> is a \<open>list option\<close>; \<open>None\<close> is the nil slice, which Go
    distinguishes from an empty one.
  \<^item> A Go map is a HOL map; a lookup of a missing key in \<^verbatim>\<open>map[string]string\<close> yields the
    empty string, written out where the source relies on it.
  \<^item> An \<^verbatim>\<open>error\<close> is a value of the datatype \<open>error\<close>; a nil error is \<open>None\<close>.
  \<^item> Every public method holds \<^verbatim>\<open>ns.lock\<close> from its first statement to its return, so
    a method is one atomic step on the store: it takes the store and returns the new one.
  \<^item> The calls to \<^verbatim>\<open>netlog\<close> only print; the one effect that is kept is the nil
    dereference of \<^verbatim>\<open>account.Email\<close> among the arguments of the log call in SaveAccount.
\<close>

subsection \<open>Go values\<close>

type_synonym 'a ptr = "'a option"
type_synonym 'a slice = "'a list option"
type_synonym byte = "8 word"

text \<open>
  Errors. The two sentinels are \<^verbatim>\<open>ErrNoNomadVariableForResolver\<close> of this package and
  \<^verbatim>\<open>api.ErrVariablePathNotFound\<close> of the Nomad client; \<open>ErrorString\<close> is any other plain
  error (\<^verbatim>\<open>errors.New\<close>); \<open>WrapError\<close> is an error that wraps another one
  (\<^verbatim>\<open>fmt.Errorf("...%w", err)\<close>), which \<^verbatim>\<open>errors.Is\<close> sees through.
\<close>

datatype error =
    ErrNoNomadVariableForResolver
  | ErrVariablePathNotFound
  | ErrorString string
  | WrapError string error

fun errors_Is :: "error \<Rightarrow> error \<Rightarrow> bool" where
  "errors_Is (WrapError msg inner) target =
     (if WrapError msg inner = target then True else errors_Is inner target)"
| "errors_Is err target = (err = target)"

text \<open>The result of a call that may panic instead of returning.\<close>

datatype 'a outcome = Panic | Return 'a

subsection \<open>The stored artifacts\<close>

text \<open>
  The fields of Account and CertAndStore, as the values \<^verbatim>\<open>account1\<close> and \<^verbatim>\<open>cert1\<close> of the
  package's tests spell them out. The store passes them through.
\<close>

record acme_Account =
  Status :: string
  Contact :: "string list"
  TermsOfServiceAgreed :: bool

record registration_Resource =
  Body :: acme_Account
  URI :: string

record Account =
  Email :: string
  Registration :: "registration_Resource ptr"
  PrivateKey :: "byte list"
  KeyType :: string

record types_Domain =
  Main_name :: string
  SANs :: "string list"

record Certificate =
  Domain_of :: types_Domain
  Certificate_bytes :: "byte list"
  Key :: "byte list"

record CertAndStore = Certificate +
  Store :: string

subsection \<open>The Nomad Variables client\<close>

type_synonym VariableItems = "string \<rightharpoonup> string"

text \<open>\<^verbatim>\<open>api.Variable\<close>: the two fields the store sets; every other field keeps its zero value.\<close>

record Variable =
  Path :: string
  Items :: VariableItems

text \<open>
  The interface \<^verbatim>\<open>nomadVariablesAPI\<close>: its two methods, over the state \<open>'c\<close> of whatever
  implements it. Of the results of \<^verbatim>\<open>Create\<close> the store reads the error only; of
  \<^verbatim>\<open>GetVariableItems\<close> it reads the error and, when that is nil, the items.
\<close>

record 'c nomadVariablesAPI =
  Create :: "Variable \<Rightarrow> 'c \<Rightarrow> error option \<times> 'c"
  GetVariableItems :: "string \<Rightarrow> 'c \<Rightarrow> (error + VariableItems) \<times> 'c"

text \<open>
  The field \<^verbatim>\<open>ns.client\<close>: the state of the implementation behind the interface, and a log
  of the calls made through it, kept here so that "no remote call" can be stated.
\<close>

datatype remote_call = CreateCall Variable | GetVariableItemsCall string

record 'c remote =
  backend :: 'c
  calls :: "remote_call list"

definition client_Create ::
  "'c nomadVariablesAPI \<Rightarrow> Variable \<Rightarrow> 'c remote \<Rightarrow> error option \<times> 'c remote" where
  "client_Create api v r =
     (case Create api v (backend r) of
        (err, b) \<Rightarrow> (err, \<lparr>backend = b, calls = calls r @ [CreateCall v]\<rparr>))"

definition client_GetVariableItems ::
  "'c nomadVariablesAPI \<Rightarrow> string \<Rightarrow> 'c remote \<Rightarrow> (error + VariableItems) \<times> 'c remote" where
  "client_GetVariableItems api p r =
     (case GetVariableItems api p (backend r) of
        (res, b) \<Rightarrow> (res, \<lparr>backend = b, calls = calls r @ [GetVariableItemsCall p]\<rparr>))"

subsection \<open>The Go library the store calls\<close>

text \<open>
  The functions of the Go library whose code is not part of the package are parameters:
  \<^verbatim>\<open>json.Marshal\<close> and \<^verbatim>\<open>json.Unmarshal\<close> at the two types the store instantiates
  \<^verbatim>\<open>put\<close> and \<^verbatim>\<open>get\<close> with, \<^verbatim>\<open>path.Join\<close> of two elements, and the case mapping that
  \<^verbatim>\<open>strings.ToLower\<close> applies to a string that is not pure ASCII.
\<close>

record go_lib =
  json_Marshal_Account :: "Account ptr \<Rightarrow> error + string"
  json_Unmarshal_Account :: "string \<Rightarrow> error + Account ptr"
  json_Marshal_Certs :: "CertAndStore ptr slice \<Rightarrow> error + string"
  json_Unmarshal_Certs :: "string \<Rightarrow> error + CertAndStore ptr slice"
  path_Join :: "string \<Rightarrow> string \<Rightarrow> string"
  unicode_ToLower :: "string \<Rightarrow> string"

text \<open>\<^verbatim>\<open>os.Getenv\<close>: the value of the variable, empty when it is not set.\<close>

type_synonym environ = "string \<rightharpoonup> string"

definition os_Getenv :: "environ \<Rightarrow> string \<Rightarrow> string" where
  "os_Getenv env key = (case env key of None \<Rightarrow> [] | Some v \<Rightarrow> v)"

definition strings_HasPrefix :: "string \<Rightarrow> string \<Rightarrow> bool" where
  "strings_HasPrefix s pre = (length pre \<le> length s \<and> take (length pre) s = pre)"

definition strings_TrimPrefix :: "string \<Rightarrow> string \<Rightarrow> string" where
  "strings_TrimPrefix s pre = (if strings_HasPrefix s pre then drop (length pre) s else s)"

text \<open>
  \<^verbatim>\<open>strings.ToLower\<close>: a string of ASCII bytes only has its letters A to Z moved to a to z;
  any other string goes through the Unicode mapping.
\<close>

definition ascii_lower :: "char \<Rightarrow> char" where
  "ascii_lower c =
     (if 65 \<le> (of_char c :: nat) \<and> (of_char c :: nat) \<le> 90
      then char_of ((of_char c :: nat) + 32) else c)"

definition strings_ToLower :: "go_lib \<Rightarrow> string \<Rightarrow> string" where
  "strings_ToLower L s =
     (if list_all (\<lambda>c. (of_char c :: nat) < 128) s then map ascii_lower s
      else unicode_ToLower L s)"

subsection \<open>Constants\<close>

definition envNomadToken :: string where "envNomadToken = ''NOMAD_TOKEN''"
definition envNomadSecretsDir :: string where "envNomadSecretsDir = ''NOMAD_SECRETS_DIR''"
definition envNomadJob :: string where "envNomadJob = ''NOMAD_JOB_NAME''"
definition envNomadGroup :: string where "envNomadGroup = ''NOMAD_GROUP''"
definition envNomadTask :: string where "envNomadTask = ''NOMAD_TASK_NAME''"

definition nomadStoreAccountType :: string where "nomadStoreAccountType = ''account''"
definition nomadStoreCertsType :: string where "nomadStoreCertsType = ''certificates''"

subsection \<open>The store\<close>

text \<open>The struct NomadStore without its lock.\<close>

record 'c NomadStore =
  client :: "'c remote"
  certCache :: "string \<rightharpoonup> CertAndStore ptr slice"
  accountCache :: "string \<rightharpoonup> Account ptr"
  paths :: "string \<rightharpoonup> string"

text \<open>
  MaybeNewNomadStore: nil unless both environment variables are set to a non-empty value;
  \<open>c0\<close> is the client that \<^verbatim>\<open>api.TaskClient(nil).Variables()\<close> builds.
\<close>

definition MaybeNewNomadStore :: "environ \<Rightarrow> 'c \<Rightarrow> 'c NomadStore ptr" where
  "MaybeNewNomadStore env c0 =
     (if os_Getenv env envNomadToken = [] \<or> os_Getenv env envNomadSecretsDir = [] then None
      else Some \<lparr>client = \<lparr>backend = c0, calls = []\<rparr>,
                 certCache = Map.empty, accountCache = Map.empty, paths = Map.empty\<rparr>)"

definition SetResolver ::
  "go_lib \<Rightarrow> environ \<Rightarrow> 'c NomadStore \<Rightarrow> string \<Rightarrow> string \<Rightarrow> 'c NomadStore" where
  "SetResolver L env ns resolverName variablesPath =
     (let p = strings_TrimPrefix variablesPath ''nomad://'';
          p = (if p = [] then
                 (let job = os_Getenv env envNomadJob;
                      group = os_Getenv env envNomadGroup;
                      task = os_Getenv env envNomadTask;
                      resolver = strings_ToLower L resolverName
                  in ''nomad/jobs/'' @ job @ ''/'' @ group @ ''/'' @ task @ ''/acme/'' @ resolver)
               else p)
      in ns\<lparr>paths := (paths ns)(resolverName \<mapsto> p)\<rparr>)"

definition pathForResolverLocked ::
  "go_lib \<Rightarrow> 'c NomadStore \<Rightarrow> string \<Rightarrow> string \<Rightarrow> string \<times> bool" where
  "pathForResolverLocked L ns resolverName itemType =
     (case paths ns resolverName of
        None \<Rightarrow> ([], False)
      | Some resolverPath \<Rightarrow>
          if resolverPath = [] then ([], False)
          else (path_Join L resolverPath itemType, True))"

text \<open>The index expression \<^verbatim>\<open>items[key]\<close> on a \<^verbatim>\<open>map[string]string\<close>.\<close>

definition items_index :: "VariableItems \<Rightarrow> string \<Rightarrow> string" where
  "items_index items key = (case items key of None \<Rightarrow> [] | Some v \<Rightarrow> v)"

text \<open>
  The generic helpers. \<^verbatim>\<open>put[T]\<close> and \<^verbatim>\<open>get[T]\<close> take the encoder and the decoder of
  \<open>T\<close> as an argument. The value that \<^verbatim>\<open>get\<close> returns beside a non-nil error is dropped
  by both of its callers, so \<open>get\<close> returns either the error or the value.
\<close>

definition put ::
  "'c nomadVariablesAPI \<Rightarrow> ('t \<Rightarrow> error + string) \<Rightarrow> 'c NomadStore \<Rightarrow> string \<Rightarrow> string \<Rightarrow> 't
     \<Rightarrow> error option \<times> 'c NomadStore" where
  "put api marshal ns varPath key item =
     (case marshal item of
        Inl err \<Rightarrow> (Some err, ns)
      | Inr b \<Rightarrow>
          (let variable = \<lparr>Path = varPath, Items = [key \<mapsto> b]\<rparr> in
           case client_Create api variable (client ns) of
             (err, c) \<Rightarrow> (err, ns\<lparr>client := c\<rparr>)))"

definition get ::
  "'c nomadVariablesAPI \<Rightarrow> (string \<Rightarrow> error + 't) \<Rightarrow> 'c NomadStore \<Rightarrow> string \<Rightarrow> string
     \<Rightarrow> (error + 't) \<times> 'c NomadStore" where
  "get api unmarshal ns varPath key =
     (case client_GetVariableItems api varPath (client ns) of
        (Inl err, c) \<Rightarrow> (Inl err, ns\<lparr>client := c\<rparr>)
      | (Inr items, c) \<Rightarrow>
          (let s = items_index items key in
           case unmarshal s of
             Inl err \<Rightarrow> (Inl err, ns\<lparr>client := c\<rparr>)
           | Inr v \<Rightarrow> (Inr v, ns\<lparr>client := c\<rparr>)))"

definition GetAccount ::
  "'c nomadVariablesAPI \<Rightarrow> go_lib \<Rightarrow> 'c NomadStore \<Rightarrow> string
     \<Rightarrow> (Account ptr \<times> error option) \<times> 'c NomadStore" where
  "GetAccount api L ns resolverName =
     (case accountCache ns resolverName of
        Some account \<Rightarrow> ((account, None), ns)
      | None \<Rightarrow>
          (case pathForResolverLocked L ns resolverName nomadStoreAccountType of
             (accountPath, exists) \<Rightarrow>
               if \<not> exists then ((None, Some ErrNoNomadVariableForResolver), ns)
               else
                 (case get api (json_Unmarshal_Account L) ns accountPath nomadStoreAccountType of
                    (Inl err, ns') \<Rightarrow>
                      if errors_Is err ErrVariablePathNotFound then ((None, None), ns')
                      else ((None, Some err), ns')
                  | (Inr account, ns') \<Rightarrow>
                      ((account, None),
                       ns'\<lparr>accountCache := (accountCache ns')(resolverName \<mapsto> account)\<rparr>))))"

definition SaveAccount ::
  "'c nomadVariablesAPI \<Rightarrow> go_lib \<Rightarrow> 'c NomadStore \<Rightarrow> string \<Rightarrow> Account ptr
     \<Rightarrow> error option outcome \<times> 'c NomadStore" where
  "SaveAccount api L ns resolverName account =
     (let ns1 = ns\<lparr>accountCache := (accountCache ns)(resolverName \<mapsto> account)\<rparr> in
      case account of
        None \<Rightarrow> (Panic, ns1)
      | Some a \<Rightarrow>
          (case pathForResolverLocked L ns1 resolverName nomadStoreAccountType of
             (accountPath, exists) \<Rightarrow>
               if \<not> exists then (Return (Some ErrNoNomadVariableForResolver), ns1)
               else
                 (case put api (json_Marshal_Account L) ns1 accountPath nomadStoreAccountType
                         account of
                    (err, ns2) \<Rightarrow> (Return err, ns2))))"

definition GetCertificates ::
  "'c nomadVariablesAPI \<Rightarrow> go_lib \<Rightarrow> 'c NomadStore \<Rightarrow> string
     \<Rightarrow> (CertAndStore ptr slice \<times> error option) \<times> 'c NomadStore" where
  "GetCertificates api L ns resolverName =
     (case certCache ns resolverName of
        Some certificates \<Rightarrow> ((certificates, None), ns)
      | None \<Rightarrow>
          (case pathForResolverLocked L ns resolverName nomadStoreCertsType of
             (certPath, exists) \<Rightarrow>
               if \<not> exists then ((None, Some ErrNoNomadVariableForResolver), ns)
               else
                 (case get api (json_Unmarshal_Certs L) ns certPath nomadStoreCertsType of
                    (Inl err, ns') \<Rightarrow>
                      if errors_Is err ErrVariablePathNotFound then ((None, None), ns')
                      else ((None, Some err), ns')
                  | (Inr certificates, ns') \<Rightarrow>
                      ((certificates, None),
                       ns'\<lparr>certCache := (certCache ns')(resolverName \<mapsto> certificates)\<rparr>))))"

definition SaveCertificates ::
  "'c nomadVariablesAPI \<Rightarrow> go_lib \<Rightarrow> 'c NomadStore \<Rightarrow> string \<Rightarrow> CertAndStore ptr slice
     \<Rightarrow> error option \<times> 'c NomadStore" where
  "SaveCertificates api L ns resolverName certificates =
     (let ns1 = ns\<lparr>certCache := (certCache ns)(resolverName \<mapsto> certificates)\<rparr> in
      case pathForResolverLocked L ns1 resolverName nomadStoreCertsType of
        (certPath, exists) \<Rightarrow>
          if \<not> exists then (Some ErrNoNomadVariableForResolver, ns1)
          else put api (json_Marshal_Certs L) ns1 certPath nomadStoreCertsType certificates)"

subsection \<open>Sequences of reads\<close>

text \<open>A caller that reads the same resolver \<open>n\<close> times in a row, keeping every result.\<close>

fun GetAccount_times ::
  "nat \<Rightarrow> 'c nomadVariablesAPI \<Rightarrow> go_lib \<Rightarrow> 'c NomadStore \<Rightarrow> string
     \<Rightarrow> (Account ptr \<times> error option) list \<times> 'c NomadStore" where
  "GetAccount_times 0 api L ns resolverName = ([], ns)"
| "GetAccount_times (Suc n) api L ns resolverName =
     (case GetAccount api L ns resolverName of
        (r, ns1) \<Rightarrow>
          (case GetAccount_times n api L ns1 resolverName of
             (rs, ns2) \<Rightarrow> (r # rs, ns2)))"

fun GetCertificates_times ::
  "nat \<Rightarrow> 'c nomadVariablesAPI \<Rightarrow> go_lib \<Rightarrow> 'c NomadStore \<Rightarrow> string
     \<Rightarrow> (CertAndStore ptr slice \<times> error option) list \<times> 'c NomadStore" where
  "GetCertificates_times 0 api L ns resolverName = ([], ns)"
| "GetCertificates_times (Suc n) api L ns resolverName =
     (case GetCertificates api L ns resolverName of
        (r, ns1) \<Rightarrow>
          (case GetCertificates_times n api L ns1 resolverName of
             (rs, ns2) \<Rightarrow> (r # rs, ns2)))"

text \<open>The calls that a method added to the log of the client.\<close>

definition new_calls :: "'c NomadStore \<Rightarrow> 'c NomadStore \<Rightarrow> remote_call list" where
  "new_calls ns ns' = drop (length (calls (client ns))) (calls (client ns'))"

subsection \<open>The mock client and the values of the package's tests\<close>

text \<open>The struct mockNomadVariablesAPI of the tests, without its lock, and its two methods.\<close>

record mockNomadVariablesAPI =
  createErr :: "error option"
  getVarItemsErr :: "error option"
  variables :: "string \<rightharpoonup> Variable"
  createHitCounter :: int
  getVarHitCounter :: int

definition newMockNomadVariablesAPI :: mockNomadVariablesAPI where
  "newMockNomadVariablesAPI =
     \<lparr>createErr = None, getVarItemsErr = None, variables = Map.empty,
      createHitCounter = 0, getVarHitCounter = 0\<rparr>"

definition mock_Create ::
  "Variable \<Rightarrow> mockNomadVariablesAPI \<Rightarrow> error option \<times> mockNomadVariablesAPI" where
  "mock_Create v m =
     (let m1 = m\<lparr>createHitCounter := createHitCounter m + 1\<rparr> in
      case createErr m1 of
        Some err \<Rightarrow> (Some err, m1)
      | None \<Rightarrow> (None, m1\<lparr>variables := (variables m1)(Path v \<mapsto> v)\<rparr>))"

definition mock_GetVariableItems ::
  "string \<Rightarrow> mockNomadVariablesAPI \<Rightarrow> (error + VariableItems) \<times> mockNomadVariablesAPI" where
  "mock_GetVariableItems p m =
     (let m1 = m\<lparr>getVarHitCounter := getVarHitCounter m + 1\<rparr> in
      case getVarItemsErr m1 of
        Some err \<Rightarrow> (Inl err, m1)
      | None \<Rightarrow>
          (case variables m1 p of
             None \<Rightarrow> (Inl ErrVariablePathNotFound, m1)
           | Some v \<Rightarrow> (Inr (Items v), m1)))"

definition mockAPI :: "mockNomadVariablesAPI nomadVariablesAPI" where
  "mockAPI = \<lparr>Create = mock_Create, GetVariableItems = mock_GetVariableItems\<rparr>"

text \<open>The environment that setNomadStoreEnv sets up.\<close>

definition nomadStoreEnv :: environ where
  "nomadStoreEnv =
     [envNomadToken \<mapsto> ''659c8d84-1b2d-73ee-f6bb-6b2421055a61'',
      envNomadSecretsDir \<mapsto> ''/some/path'',
      envNomadJob \<mapsto> ''job1'',
      envNomadGroup \<mapsto> ''group1'',
      envNomadTask \<mapsto> ''task1'']"

definition account1 :: Account where
  "account1 =
     \<lparr>Email = ''test@example.com'',
      Registration = Some \<lparr>Body = \<lparr>Status = ''valid'', Contact = [''test@example.com''],
                                     TermsOfServiceAgreed = True\<rparr>,
                             URI = ''https://example.com/dir''\<rparr>,
      PrivateKey = [1, 2, 3, 4, 5],
      KeyType = ''FAKE''\<rparr>"

definition cert1 :: CertAndStore where
  "cert1 =
     \<lparr>Domain_of = \<lparr>Main_name = ''subject'', SANs = [''one'', ''two'']\<rparr>,
      Certificate_bytes = [9, 8, 7, 6, 5],
      Key = [5, 6, 7, 8, 9],
      Store = ''default''\<rparr>"

text \<open>
  A stand-in for the library parameters, to run the store on concrete inputs. Its
  encoders write a fixed text for the test values; its decoders reject the empty input, as
  \<^verbatim>\<open>json.Unmarshal\<close> does ("unexpected end of JSON input"), read \<^verbatim>\<open>null\<close> as nil and read
  back the texts of the encoders; its join puts one slash between two elements, which is
  what \<^verbatim>\<open>path.Join\<close> returns for two non-empty elements that are already clean.
\<close>

definition stub_lib :: go_lib where
  "stub_lib =
     \<lparr>json_Marshal_Account =
        (\<lambda>a. case a of None \<Rightarrow> Inr ''null''
              | Some x \<Rightarrow> if x = account1 then Inr ''{account1}''
                          else Inl (ErrorString ''json: unsupported value'')),
      json_Unmarshal_Account =
        (\<lambda>s. if s = [] then Inl (ErrorString ''unexpected end of JSON input'')
              else if s = ''null'' then Inr None
              else if s = ''{account1}'' then Inr (Some account1)
              else Inl (ErrorString ''invalid character'')),
      json_Marshal_Certs =
        (\<lambda>cs. case cs of None \<Rightarrow> Inr ''null''
               | Some xs \<Rightarrow> if xs = [Some cert1] then Inr ''[{cert1}]''
                            else Inl (ErrorString ''json: unsupported value'')),
      json_Unmarshal_Certs =
        (\<lambda>s. if s = [] then Inl (ErrorString ''unexpected end of JSON input'')
              else if s = ''null'' then Inr None
              else if s = ''[{cert1}]'' then Inr (Some [Some cert1])
              else Inl (ErrorString ''invalid character'')),
      path_Join = (\<lambda>a b. a @ ''/'' @ b),
      unicode_ToLower = (\<lambda>s. s)\<rparr>"

text \<open>
  The store of the tests: MaybeNewNomadStore in the test environment, with the client
  replaced by the mock \<open>m\<close>; and that store after \<^verbatim>\<open>ns.SetResolver("le", "nomad://")\<close>.
\<close>

definition newTestStore :: "mockNomadVariablesAPI \<Rightarrow> mockNomadVariablesAPI NomadStore" where
  "newTestStore m =
     \<lparr>client = \<lparr>backend = m, calls = []\<rparr>,
      certCache = Map.empty, accountCache = Map.empty, paths = Map.empty\<rparr>"

definition boundTestStore :: "mockNomadVariablesAPI \<Rightarrow> mockNomadVariablesAPI NomadStore" where
  "boundTestStore m = SetResolver stub_lib nomadStoreEnv (newTestStore m) ''le'' ''nomad://''"

definition lePath :: string where
  "lePath = ''nomad/jobs/job1/group1/task1/acme/le''"

text \<open>The mocks of the "endpoint error" tests.\<close>

definition readErrMock :: mockNomadVariablesAPI where
  "readErrMock = newMockNomadVariablesAPI\<lparr>getVarItemsErr := Some (ErrorString ''oops'')\<rparr>"

definition createErrMock :: mockNomadVariablesAPI where
  "createErrMock = newMockNomadVariablesAPI\<lparr>createErr := Some (ErrorString ''oops'')\<rparr>"

text \<open>
  Mocks that hold variables at the two item paths of resolver "le": one whose items are
  not JSON, one whose item sets lack the key of the artifact kind, and one whose
  account variable has an old value and a sibling item.
\<close>

definition variablesMock :: "VariableItems \<Rightarrow> VariableItems \<Rightarrow> mockNomadVariablesAPI" where
  "variablesMock accountItems certsItems =
     newMockNomadVariablesAPI
       \<lparr>variables :=
          [lePath @ ''/account'' \<mapsto> \<lparr>Path = lePath @ ''/account'', Items = accountItems\<rparr>,
           lePath @ ''/certificates'' \<mapsto>
             \<lparr>Path = lePath @ ''/certificates'', Items = certsItems\<rparr>]\<rparr>"

definition garbageMock :: mockNomadVariablesAPI where
  "garbageMock = variablesMock [''account'' \<mapsto> ''garbage''] [''certificates'' \<mapsto> ''garbage'']"

definition otherKeyMock :: mockNomadVariablesAPI where
  "otherKeyMock = variablesMock [''other'' \<mapsto> ''x''] [''other'' \<mapsto> ''x'']"

definition siblingMock :: mockNomadVariablesAPI where
  "siblingMock =
     variablesMock [''account'' \<mapsto> ''null'', ''sibling'' \<mapsto> ''x'']
       [''certificates'' \<mapsto> ''null'', ''sibling'' \<mapsto> ''x'']"

section \<open>Properties\<close>

subsection \<open>Running the store on concrete inputs\<close>

lemmas run_defs =
  SetResolver_def strings_TrimPrefix_def strings_HasPrefix_def os_Getenv_def nomadStoreEnv_def
  envNomadToken_def envNomadSecretsDir_def envNomadJob_def envNomadGroup_def envNomadTask_def
  strings_ToLower_def ascii_lower_def stub_lib_def Let_def
  newTestStore_def boundTestStore_def lePath_def newMockNomadVariablesAPI_def
  readErrMock_def createErrMock_def variablesMock_def garbageMock_def otherKeyMock_def
  siblingMock_def mockAPI_def mock_Create_def mock_GetVariableItems_def
  SaveAccount_def SaveCertificates_def GetAccount_def GetCertificates_def put_def get_def
  pathForResolverLocked_def items_index_def client_Create_def client_GetVariableItems_def
  nomadStoreAccountType_def nomadStoreCertsType_def new_calls_def

lemma MaybeNewNomadStore_test_env:
  "MaybeNewNomadStore nomadStoreEnv m = Some (newTestStore m)"
  "MaybeNewNomadStore Map.empty m = None"
  by (simp_all add: MaybeNewNomadStore_def os_Getenv_def nomadStoreEnv_def newTestStore_def
      envNomadToken_def envNomadSecretsDir_def envNomadJob_def envNomadGroup_def
      envNomadTask_def)

lemma boundTestStore_fields:
  "paths (boundTestStore m) ''le'' = Some lePath"
  "accountCache (boundTestStore m) ''le'' = None"
  "certCache (boundTestStore m) ''le'' = None"
  "client (boundTestStore m) = \<lparr>backend = m, calls = []\<rparr>"
  "lePath \<noteq> []"
  by (simp_all add: run_defs)

lemma stub_path_Join:
  "path_Join stub_lib lePath nomadStoreAccountType = lePath @ ''/account''"
  "path_Join stub_lib lePath nomadStoreCertsType = lePath @ ''/certificates''"
  by (simp_all add: stub_lib_def nomadStoreAccountType_def nomadStoreCertsType_def)

subsection \<open>What the helpers leave alone\<close>

lemma put_frame [simp]:
  "accountCache (snd (put api marshal ns varPath key item)) = accountCache ns"
  "certCache (snd (put api marshal ns varPath key item)) = certCache ns"
  "paths (snd (put api marshal ns varPath key item)) = paths ns"
  by (auto simp: put_def Let_def split: sum.splits prod.splits)

lemma get_frame [simp]:
  "accountCache (snd (get api unmarshal ns varPath key)) = accountCache ns"
  "certCache (snd (get api unmarshal ns varPath key)) = certCache ns"
  "paths (snd (get api unmarshal ns varPath key)) = paths ns"
  by (auto simp: get_def Let_def split: sum.splits prod.splits)

lemma pathForResolverLocked_unbound:
  "paths ns owner = None \<Longrightarrow> pathForResolverLocked L ns owner itemType = ([], False)"
  by (simp add: pathForResolverLocked_def)

lemma pathForResolverLocked_bound:
  "paths ns owner = Some p \<Longrightarrow> p \<noteq> [] \<Longrightarrow>
     pathForResolverLocked L ns owner itemType = (path_Join L p itemType, True)"
  by (simp add: pathForResolverLocked_def)

lemma get_remote_error:
  "GetVariableItems api varPath (backend (client ns)) = (Inl err, c) \<Longrightarrow>
     get api unmarshal ns varPath key =
       (Inl err,
        ns\<lparr>client := \<lparr>backend = c,
                        calls = calls (client ns) @ [GetVariableItemsCall varPath]\<rparr>\<rparr>)"
  by (simp add: get_def client_GetVariableItems_def)

lemma get_remote_items:
  "GetVariableItems api varPath (backend (client ns)) = (Inr items, c) \<Longrightarrow>
     get api unmarshal ns varPath key =
       (unmarshal (items_index items key),
        ns\<lparr>client := \<lparr>backend = c,
                        calls = calls (client ns) @ [GetVariableItemsCall varPath]\<rparr>\<rparr>)"
  by (simp add: get_def client_GetVariableItems_def Let_def split: sum.splits)

lemma GetAccount_uncached_bound:
  "accountCache ns owner = None \<Longrightarrow> paths ns owner = Some p \<Longrightarrow> p \<noteq> [] \<Longrightarrow>
     GetAccount api L ns owner =
       (case get api (json_Unmarshal_Account L) ns (path_Join L p nomadStoreAccountType)
               nomadStoreAccountType of
          (Inl err, ns') \<Rightarrow>
            if errors_Is err ErrVariablePathNotFound then ((None, None), ns')
            else ((None, Some err), ns')
        | (Inr account, ns') \<Rightarrow>
            ((account, None), ns'\<lparr>accountCache := (accountCache ns')(owner \<mapsto> account)\<rparr>))"
  by (simp add: GetAccount_def pathForResolverLocked_bound)

lemma GetCertificates_uncached_bound:
  "certCache ns owner = None \<Longrightarrow> paths ns owner = Some p \<Longrightarrow> p \<noteq> [] \<Longrightarrow>
     GetCertificates api L ns owner =
       (case get api (json_Unmarshal_Certs L) ns (path_Join L p nomadStoreCertsType)
               nomadStoreCertsType of
          (Inl err, ns') \<Rightarrow>
            if errors_Is err ErrVariablePathNotFound then ((None, None), ns')
            else ((None, Some err), ns')
        | (Inr certificates, ns') \<Rightarrow>
            ((certificates, None),
             ns'\<lparr>certCache := (certCache ns')(owner \<mapsto> certificates)\<rparr>))"
  by (simp add: GetCertificates_def pathForResolverLocked_bound)

lemma SaveAccount_accountCache:
  "accountCache (snd (SaveAccount api L ns owner V)) = (accountCache ns)(owner \<mapsto> V)"
  by (simp add: SaveAccount_def Let_def case_prod_beta split: option.splits)

lemma SaveCertificates_certCache:
  "certCache (snd (SaveCertificates api L ns owner V)) = (certCache ns)(owner \<mapsto> V)"
  by (simp add: SaveCertificates_def Let_def case_prod_beta)

lemma GetAccount_cached:
  "accountCache ns owner = Some A \<Longrightarrow> GetAccount api L ns owner = ((A, None), ns)"
  by (simp add: GetAccount_def)

lemma GetCertificates_cached:
  "certCache ns owner = Some Cs \<Longrightarrow> GetCertificates api L ns owner = ((Cs, None), ns)"
  by (simp add: GetCertificates_def)

subsection \<open>The cache is read first\<close>

text \<open>
  Claim C1. After a SaveAccount for an owner has returned a nil error, GetAccount for that
  owner returns the saved account with a nil error and hands back the store as it was:
  the client, the state behind it and the log of remote calls included, so no remote read
  was made. The same holds for SaveCertificates and GetCertificates.
\<close>

theorem save_then_get_is_cache_hit:
  "(SaveAccount api L ns owner A = (Return None, ns1) \<longrightarrow>
      GetAccount api L ns1 owner = ((A, None), ns1) \<and>
      new_calls ns1 (snd (GetAccount api L ns1 owner)) = []) \<and>
   (SaveCertificates api L ns owner Cs = (None, ns2) \<longrightarrow>
      GetCertificates api L ns2 owner = ((Cs, None), ns2) \<and>
      new_calls ns2 (snd (GetCertificates api L ns2 owner)) = [])"
proof (intro conjI impI)
  assume "SaveAccount api L ns owner A = (Return None, ns1)"
  then have "ns1 = snd (SaveAccount api L ns owner A)" by simp
  then have "accountCache ns1 owner = Some A"
    by (simp add: SaveAccount_accountCache)
  then show g: "GetAccount api L ns1 owner = ((A, None), ns1)"
    by (rule GetAccount_cached)
  show "new_calls ns1 (snd (GetAccount api L ns1 owner)) = []"
    by (simp add: g new_calls_def)
next
  assume "SaveCertificates api L ns owner Cs = (None, ns2)"
  then have "ns2 = snd (SaveCertificates api L ns owner Cs)" by simp
  then have "certCache ns2 owner = Some Cs"
    by (simp add: SaveCertificates_certCache)
  then show g: "GetCertificates api L ns2 owner = ((Cs, None), ns2)"
    by (rule GetCertificates_cached)
  show "new_calls ns2 (snd (GetCertificates api L ns2 owner)) = []"
    by (simp add: g new_calls_def)
qed

text \<open>
  The test "ok" of SaveAccount and of SaveCertificates, followed by a read: the save
  succeeds, the read returns the saved value, and the mock has counted no read.
\<close>

theorem save_then_get_is_cache_hit_witness:
  "fst (SaveAccount mockAPI stub_lib (boundTestStore newMockNomadVariablesAPI) ''le''
          (Some account1)) = Return None \<and>
   fst (GetAccount mockAPI stub_lib
          (snd (SaveAccount mockAPI stub_lib (boundTestStore newMockNomadVariablesAPI) ''le''
                  (Some account1))) ''le'') = (Some account1, None) \<and>
   getVarHitCounter (backend (client (snd (GetAccount mockAPI stub_lib
          (snd (SaveAccount mockAPI stub_lib (boundTestStore newMockNomadVariablesAPI) ''le''
                  (Some account1))) ''le'')))) = 0 \<and>
   fst (SaveCertificates mockAPI stub_lib (boundTestStore newMockNomadVariablesAPI) ''le''
          (Some [Some cert1])) = None \<and>
   fst (GetCertificates mockAPI stub_lib
          (snd (SaveCertificates mockAPI stub_lib (boundTestStore newMockNomadVariablesAPI) ''le''
                  (Some [Some cert1]))) ''le'') = (Some [Some cert1], None) \<and>
   getVarHitCounter (backend (client (snd (GetCertificates mockAPI stub_lib
          (snd (SaveCertificates mockAPI stub_lib (boundTestStore newMockNomadVariablesAPI) ''le''
                  (Some [Some cert1]))) ''le'')))) = 0"
proof -
  let ?ns = "boundTestStore newMockNomadVariablesAPI"
  let ?sa = "SaveAccount mockAPI stub_lib ?ns ''le'' (Some account1)"
  let ?sc = "SaveCertificates mockAPI stub_lib ?ns ''le'' (Some [Some cert1])"
  have fa: "fst ?sa = Return None"
    by (simp add: run_defs)
  have fc: "fst ?sc = None"
    by (simp add: run_defs)
  have ha: "getVarHitCounter (backend (client (snd ?sa))) = 0"
    by (simp add: run_defs)
  have hc: "getVarHitCounter (backend (client (snd ?sc))) = 0"
    by (simp add: run_defs)
  have ea: "?sa = (Return None, snd ?sa)"
    using fa by (metis prod.collapse)
  have ec: "?sc = (None, snd ?sc)"
    using fc by (metis prod.collapse)
  have ga: "GetAccount mockAPI stub_lib (snd ?sa) ''le'' = ((Some account1, None), snd ?sa)"
    using save_then_get_is_cache_hit [of mockAPI stub_lib ?ns "''le''" "Some account1" "snd ?sa"]
      ea by blast
  have gc: "GetCertificates mockAPI stub_lib (snd ?sc) ''le'' = ((Some [Some cert1], None), snd ?sc)"
    using save_then_get_is_cache_hit [where api = mockAPI and L = stub_lib and ns = ?ns
        and owner = "''le''" and Cs = "Some [Some cert1]" and ?ns2.0 = "snd ?sc"]
      ec by blast
  show ?thesis
    unfolding ga gc using fa fc ha hc by simp
qed

subsection \<open>A resolver without a path\<close>

text \<open>
  Claim C2. For an owner that has no entry in the map of paths: GetAccount, when the
  account cache has no entry for the owner, and GetCertificates, when the certificate cache
  has none, return ErrNoNomadVariableForResolver and hand back the store as it was; SaveAccount
  of an account and SaveCertificates return ErrNoNomadVariableForResolver, and the store they
  hand back differs from the given one in the cache entry only. In all four the client, with
  its log of calls, is the one that was given: no remote call is made.
  The account given to SaveAccount is an account, not the nil pointer.
\<close>

theorem unbound_owner_fails_without_remote_call:
  assumes "paths ns owner = None"
  shows
    "(accountCache ns owner = None \<longrightarrow>
        GetAccount api L ns owner = ((None, Some ErrNoNomadVariableForResolver), ns)) \<and>
     (certCache ns owner = None \<longrightarrow>
        GetCertificates api L ns owner = ((None, Some ErrNoNomadVariableForResolver), ns)) \<and>
     SaveAccount api L ns owner (Some a) =
       (Return (Some ErrNoNomadVariableForResolver),
        ns\<lparr>accountCache := (accountCache ns)(owner \<mapsto> Some a)\<rparr>) \<and>
     SaveCertificates api L ns owner Cs =
       (Some ErrNoNomadVariableForResolver,
        ns\<lparr>certCache := (certCache ns)(owner \<mapsto> Cs)\<rparr>)"
proof (intro conjI impI)
  assume "accountCache ns owner = None"
  with assms show "GetAccount api L ns owner = ((None, Some ErrNoNomadVariableForResolver), ns)"
    by (simp add: GetAccount_def pathForResolverLocked_unbound)
next
  assume "certCache ns owner = None"
  with assms
  show "GetCertificates api L ns owner = ((None, Some ErrNoNomadVariableForResolver), ns)"
    by (simp add: GetCertificates_def pathForResolverLocked_unbound)
next
  from assms show "SaveAccount api L ns owner (Some a) =
      (Return (Some ErrNoNomadVariableForResolver),
       ns\<lparr>accountCache := (accountCache ns)(owner \<mapsto> Some a)\<rparr>)"
    by (simp add: SaveAccount_def Let_def pathForResolverLocked_unbound)
next
  from assms show "SaveCertificates api L ns owner Cs =
      (Some ErrNoNomadVariableForResolver, ns\<lparr>certCache := (certCache ns)(owner \<mapsto> Cs)\<rparr>)"
    by (simp add: SaveCertificates_def Let_def pathForResolverLocked_unbound)
qed

text \<open>The four tests "missing resolver": a fresh store, no SetResolver.\<close>

theorem unbound_owner_fails_without_remote_call_witness:
  "paths (newTestStore newMockNomadVariablesAPI) ''le'' = None \<and>
   accountCache (newTestStore newMockNomadVariablesAPI) ''le'' = None \<and>
   certCache (newTestStore newMockNomadVariablesAPI) ''le'' = None \<and>
   GetAccount mockAPI stub_lib (newTestStore newMockNomadVariablesAPI) ''le'' =
     ((None, Some ErrNoNomadVariableForResolver), newTestStore newMockNomadVariablesAPI) \<and>
   GetCertificates mockAPI stub_lib (newTestStore newMockNomadVariablesAPI) ''le'' =
     ((None, Some ErrNoNomadVariableForResolver), newTestStore newMockNomadVariablesAPI) \<and>
   fst (SaveAccount mockAPI stub_lib (newTestStore newMockNomadVariablesAPI) ''le''
          (Some account1)) = Return (Some ErrNoNomadVariableForResolver) \<and>
   client (snd (SaveAccount mockAPI stub_lib (newTestStore newMockNomadVariablesAPI) ''le''
          (Some account1))) = \<lparr>backend = newMockNomadVariablesAPI, calls = []\<rparr> \<and>
   fst (SaveCertificates mockAPI stub_lib (newTestStore newMockNomadVariablesAPI) ''le''
          (Some [Some cert1])) = Some ErrNoNomadVariableForResolver \<and>
   client (snd (SaveCertificates mockAPI stub_lib (newTestStore newMockNomadVariablesAPI) ''le''
          (Some [Some cert1]))) = \<lparr>backend = newMockNomadVariablesAPI, calls = []\<rparr>"
proof -
  let ?ns = "newTestStore newMockNomadVariablesAPI"
  have p: "paths ?ns ''le'' = None" and a: "accountCache ?ns ''le'' = None"
    and c: "certCache ?ns ''le'' = None"
    and k: "client ?ns = \<lparr>backend = newMockNomadVariablesAPI, calls = []\<rparr>"
    by (simp_all add: newTestStore_def)
  note t = unbound_owner_fails_without_remote_call
    [OF p, of mockAPI stub_lib account1 "Some [Some cert1]"]
  from t a have 1: "GetAccount mockAPI stub_lib ?ns ''le'' =
      ((None, Some ErrNoNomadVariableForResolver), ?ns)" by blast
  from t c have 2: "GetCertificates mockAPI stub_lib ?ns ''le'' =
      ((None, Some ErrNoNomadVariableForResolver), ?ns)" by blast
  from t have 3: "SaveAccount mockAPI stub_lib ?ns ''le'' (Some account1) =
      (Return (Some ErrNoNomadVariableForResolver),
       ?ns\<lparr>accountCache := (accountCache ?ns)(''le'' \<mapsto> Some account1)\<rparr>)" by blast
  from t have 4: "SaveCertificates mockAPI stub_lib ?ns ''le'' (Some [Some cert1]) =
      (Some ErrNoNomadVariableForResolver,
       ?ns\<lparr>certCache := (certCache ?ns)(''le'' \<mapsto> Some [Some cert1])\<rparr>)" by blast
  show ?thesis
    unfolding 1 2 3 4 using p a c k by simp
qed

subsection \<open>The cache is written first\<close>

text \<open>
  Claim C3. Whatever SaveAccount does after its first statement (it may panic, return
  ErrNoNomadVariableForResolver, return the error of the encoder or of the remote write, or
  succeed), the account cache of the store it leaves behind is the given one with the
  owner mapped to the value that was passed in; and likewise the certificate cache after
  SaveCertificates. No hypothesis on the binding, the value or the remote store is needed.
\<close>

theorem save_writes_cache_whatever_the_outcome:
  "accountCache (snd (SaveAccount api L ns owner V)) = (accountCache ns)(owner \<mapsto> V) \<and>
   accountCache (snd (SaveAccount api L ns owner V)) owner = Some V \<and>
   certCache (snd (SaveCertificates api L ns owner W)) = (certCache ns)(owner \<mapsto> W) \<and>
   certCache (snd (SaveCertificates api L ns owner W)) owner = Some W"
  by (simp add: SaveAccount_accountCache SaveCertificates_certCache)

text \<open>
  The test "endpoint error" of SaveCertificates, a SaveAccount without a binding and a
  SaveAccount of the nil pointer: each fails, and each has written the cache.
\<close>

theorem save_writes_cache_whatever_the_outcome_witness:
  "fst (SaveCertificates mockAPI stub_lib (boundTestStore createErrMock) ''le''
          (Some [Some cert1])) = Some (ErrorString ''oops'') \<and>
   certCache (snd (SaveCertificates mockAPI stub_lib (boundTestStore createErrMock) ''le''
          (Some [Some cert1]))) ''le'' = Some (Some [Some cert1]) \<and>
   fst (SaveAccount mockAPI stub_lib (boundTestStore createErrMock) ''le''
          (Some account1)) = Return (Some (ErrorString ''oops'')) \<and>
   accountCache (snd (SaveAccount mockAPI stub_lib (boundTestStore createErrMock) ''le''
          (Some account1))) ''le'' = Some (Some account1) \<and>
   fst (SaveAccount mockAPI stub_lib (newTestStore newMockNomadVariablesAPI) ''le''
          (Some account1)) = Return (Some ErrNoNomadVariableForResolver) \<and>
   accountCache (snd (SaveAccount mockAPI stub_lib (newTestStore newMockNomadVariablesAPI) ''le''
          (Some account1))) ''le'' = Some (Some account1) \<and>
   fst (SaveAccount mockAPI stub_lib (boundTestStore newMockNomadVariablesAPI) ''le'' None) = Panic \<and>
   accountCache (snd (SaveAccount mockAPI stub_lib (boundTestStore newMockNomadVariablesAPI)
          ''le'' None)) ''le'' = Some None"
proof -
  have 1: "fst (SaveCertificates mockAPI stub_lib (boundTestStore createErrMock) ''le''
          (Some [Some cert1])) = Some (ErrorString ''oops'')"
    by (simp add: run_defs)
  have 2: "fst (SaveAccount mockAPI stub_lib (boundTestStore createErrMock) ''le''
          (Some account1)) = Return (Some (ErrorString ''oops''))"
    by (simp add: run_defs)
  have 3: "fst (SaveAccount mockAPI stub_lib (newTestStore newMockNomadVariablesAPI) ''le''
          (Some account1)) = Return (Some ErrNoNomadVariableForResolver)"
    by (simp add: run_defs)
  have 4: "fst (SaveAccount mockAPI stub_lib (boundTestStore newMockNomadVariablesAPI) ''le''
          None) = Panic"
    by (simp add: run_defs)
  show ?thesis
    using 1 2 3 4
      save_writes_cache_whatever_the_outcome [of mockAPI stub_lib "boundTestStore createErrMock"
        "''le''" "Some account1" "Some [Some cert1]"]
      save_writes_cache_whatever_the_outcome [of mockAPI stub_lib
        "newTestStore newMockNomadVariablesAPI" "''le''" "Some account1" None]
      save_writes_cache_whatever_the_outcome [of mockAPI stub_lib
        "boundTestStore newMockNomadVariablesAPI" "''le''" None None]
    by blast
qed

subsection \<open>Reads that fail\<close>

text \<open>
  Claim C4. Let the owner be bound to a non-empty path and have no entry in the cache
  that is read. If the remote read returns an error for which
  \<^verbatim>\<open>errors.Is(err, api.ErrVariablePathNotFound)\<close> is false, GetAccount returns a nil
  account and that very error, and both caches are as before, so the owner still has no
  entry. If the remote read returns items and the decoder rejects the item of the artifact
  kind, GetAccount returns the decoder's error and both caches are as before. The same holds
  for GetCertificates. (The decoder is a parameter here; its error is taken not to be the
  path-not-found error of the Nomad client.)
\<close>

theorem read_failure_propagates_cache_unpopulated:
  assumes "paths ns owner = Some p" and "p \<noteq> []"
  shows
    "(accountCache ns owner = None \<and>
      GetVariableItems api (path_Join L p nomadStoreAccountType) (backend (client ns)) =
        (Inl err, c) \<and>
      \<not> errors_Is err ErrVariablePathNotFound \<longrightarrow>
        fst (GetAccount api L ns owner) = (None, Some err) \<and>
        accountCache (snd (GetAccount api L ns owner)) = accountCache ns \<and>
        certCache (snd (GetAccount api L ns owner)) = certCache ns) \<and>
     (accountCache ns owner = None \<and>
      GetVariableItems api (path_Join L p nomadStoreAccountType) (backend (client ns)) =
        (Inr items, c) \<and>
      json_Unmarshal_Account L (items_index items nomadStoreAccountType) = Inl err \<and>
      \<not> errors_Is err ErrVariablePathNotFound \<longrightarrow>
        fst (GetAccount api L ns owner) = (None, Some err) \<and>
        accountCache (snd (GetAccount api L ns owner)) = accountCache ns \<and>
        certCache (snd (GetAccount api L ns owner)) = certCache ns) \<and>
     (certCache ns owner = None \<and>
      GetVariableItems api (path_Join L p nomadStoreCertsType) (backend (client ns)) =
        (Inl err, c) \<and>
      \<not> errors_Is err ErrVariablePathNotFound \<longrightarrow>
        fst (GetCertificates api L ns owner) = (None, Some err) \<and>
        certCache (snd (GetCertificates api L ns owner)) = certCache ns \<and>
        accountCache (snd (GetCertificates api L ns owner)) = accountCache ns) \<and>
     (certCache ns owner = None \<and>
      GetVariableItems api (path_Join L p nomadStoreCertsType) (backend (client ns)) =
        (Inr items, c) \<and>
      json_Unmarshal_Certs L (items_index items nomadStoreCertsType) = Inl err \<and>
      \<not> errors_Is err ErrVariablePathNotFound \<longrightarrow>
        fst (GetCertificates api L ns owner) = (None, Some err) \<and>
        certCache (snd (GetCertificates api L ns owner)) = certCache ns \<and>
        accountCache (snd (GetCertificates api L ns owner)) = accountCache ns)"
  using assms
  by (simp add: GetAccount_uncached_bound GetCertificates_uncached_bound
      get_remote_error get_remote_items)

text \<open>
  The two tests "endpoint error" of the reads, and reads of variables whose items are not
  JSON: the error comes back and the caches stay empty.
\<close>

theorem read_failure_propagates_cache_unpopulated_witness:
  "fst (GetAccount mockAPI stub_lib (boundTestStore readErrMock) ''le'') =
     (None, Some (ErrorString ''oops'')) \<and>
   accountCache (snd (GetAccount mockAPI stub_lib (boundTestStore readErrMock) ''le'')) ''le'' =
     None \<and>
   fst (GetAccount mockAPI stub_lib (boundTestStore garbageMock) ''le'') =
     (None, Some (ErrorString ''invalid character'')) \<and>
   accountCache (snd (GetAccount mockAPI stub_lib (boundTestStore garbageMock) ''le'')) ''le'' =
     None \<and>
   fst (GetCertificates mockAPI stub_lib (boundTestStore readErrMock) ''le'') =
     (None, Some (ErrorString ''oops'')) \<and>
   certCache (snd (GetCertificates mockAPI stub_lib (boundTestStore readErrMock) ''le'')) ''le'' =
     None \<and>
   fst (GetCertificates mockAPI stub_lib (boundTestStore garbageMock) ''le'') =
     (None, Some (ErrorString ''invalid character'')) \<and>
   certCache (snd (GetCertificates mockAPI stub_lib (boundTestStore garbageMock) ''le'')) ''le'' =
     None"
proof -
  note b = boundTestStore_fields
  have ra: "GetVariableItems mockAPI (path_Join stub_lib lePath nomadStoreAccountType)
              (backend (client (boundTestStore readErrMock))) =
            (Inl (ErrorString ''oops''), readErrMock\<lparr>getVarHitCounter := 1\<rparr>)"
    by (simp add: b stub_path_Join mockAPI_def mock_GetVariableItems_def readErrMock_def
        newMockNomadVariablesAPI_def)
  have rc: "GetVariableItems mockAPI (path_Join stub_lib lePath nomadStoreCertsType)
              (backend (client (boundTestStore readErrMock))) =
            (Inl (ErrorString ''oops''), readErrMock\<lparr>getVarHitCounter := 1\<rparr>)"
    by (simp add: b stub_path_Join mockAPI_def mock_GetVariableItems_def readErrMock_def
        newMockNomadVariablesAPI_def)
  have ga: "GetVariableItems mockAPI (path_Join stub_lib lePath nomadStoreAccountType)
              (backend (client (boundTestStore garbageMock))) =
            (Inr [''account'' \<mapsto> ''garbage''], garbageMock\<lparr>getVarHitCounter := 1\<rparr>)"
    unfolding stub_path_Join
    by (simp add: b mockAPI_def mock_GetVariableItems_def garbageMock_def
        variablesMock_def newMockNomadVariablesAPI_def lePath_def)
  have gc: "GetVariableItems mockAPI (path_Join stub_lib lePath nomadStoreCertsType)
              (backend (client (boundTestStore garbageMock))) =
            (Inr [''certificates'' \<mapsto> ''garbage''], garbageMock\<lparr>getVarHitCounter := 1\<rparr>)"
    unfolding stub_path_Join
    by (simp add: b mockAPI_def mock_GetVariableItems_def garbageMock_def
        variablesMock_def newMockNomadVariablesAPI_def lePath_def)
  have da: "json_Unmarshal_Account stub_lib
              (items_index [''account'' \<mapsto> ''garbage''] nomadStoreAccountType) =
            Inl (ErrorString ''invalid character'')"
    by (simp add: stub_lib_def items_index_def nomadStoreAccountType_def)
  have dc: "json_Unmarshal_Certs stub_lib
              (items_index [''certificates'' \<mapsto> ''garbage''] nomadStoreCertsType) =
            Inl (ErrorString ''invalid character'')"
    by (simp add: stub_lib_def items_index_def nomadStoreCertsType_def)
  have e: "\<not> errors_Is (ErrorString ''oops'') ErrVariablePathNotFound"
    "\<not> errors_Is (ErrorString ''invalid character'') ErrVariablePathNotFound"
    by simp_all
  note t1 = read_failure_propagates_cache_unpopulated
    [OF b(1) b(5), of readErrMock mockAPI stub_lib "ErrorString ''oops''"
      "readErrMock\<lparr>getVarHitCounter := 1\<rparr>"]
  note t2 = read_failure_propagates_cache_unpopulated
    [OF b(1) b(5), of garbageMock mockAPI stub_lib "ErrorString ''invalid character''"
      "garbageMock\<lparr>getVarHitCounter := 1\<rparr>" "[''account'' \<mapsto> ''garbage'']"]
  note t3 = read_failure_propagates_cache_unpopulated
    [OF b(1) b(5), of garbageMock mockAPI stub_lib "ErrorString ''invalid character''"
      "garbageMock\<lparr>getVarHitCounter := 1\<rparr>" "[''certificates'' \<mapsto> ''garbage'']"]
  from t1 ra rc e b(2,3) have
    "fst (GetAccount mockAPI stub_lib (boundTestStore readErrMock) ''le'') =
       (None, Some (ErrorString ''oops'')) \<and>
     accountCache (snd (GetAccount mockAPI stub_lib (boundTestStore readErrMock) ''le'')) ''le'' =
       None \<and>
     fst (GetCertificates mockAPI stub_lib (boundTestStore readErrMock) ''le'') =
       (None, Some (ErrorString ''oops'')) \<and>
     certCache (snd (GetCertificates mockAPI stub_lib (boundTestStore readErrMock) ''le'')) ''le'' =
       None"
    by simp
  moreover from t2 ga da e b(2) have
    "fst (GetAccount mockAPI stub_lib (boundTestStore garbageMock) ''le'') =
       (None, Some (ErrorString ''invalid character'')) \<and>
     accountCache (snd (GetAccount mockAPI stub_lib (boundTestStore garbageMock) ''le'')) ''le'' =
       None"
    by simp
  moreover from t3 gc dc e b(3) have
    "fst (GetCertificates mockAPI stub_lib (boundTestStore garbageMock) ''le'') =
       (None, Some (ErrorString ''invalid character'')) \<and>
     certCache (snd (GetCertificates mockAPI stub_lib (boundTestStore garbageMock) ''le'')) ''le'' =
       None"
    by simp
  ultimately show ?thesis by blast
qed

subsection \<open>Reads of a path that holds nothing\<close>

text \<open>
  Claim C5. Let the owner be bound to a non-empty path and have no entry in the cache
  that is read. If the remote read returns an error for which
  \<^verbatim>\<open>errors.Is(err, api.ErrVariablePathNotFound)\<close> holds (the sentinel itself, or an error
  that wraps it), GetAccount returns the nil account with the nil error, and GetCertificates
  returns the nil slice with the nil error.
\<close>

theorem path_not_found_is_no_data:
  assumes "paths ns owner = Some p" and "p \<noteq> []"
  shows
    "(accountCache ns owner = None \<and>
      GetVariableItems api (path_Join L p nomadStoreAccountType) (backend (client ns)) =
        (Inl err, c) \<and>
      errors_Is err ErrVariablePathNotFound \<longrightarrow>
        fst (GetAccount api L ns owner) = (None, None)) \<and>
     (certCache ns owner = None \<and>
      GetVariableItems api (path_Join L p nomadStoreCertsType) (backend (client ns)) =
        (Inl err, c) \<and>
      errors_Is err ErrVariablePathNotFound \<longrightarrow>
        fst (GetCertificates api L ns owner) = (None, None))"
  using assms
  by (simp add: GetAccount_uncached_bound GetCertificates_uncached_bound get_remote_error)

text \<open>The tests "account is absent" and "certs are absent".\<close>

theorem path_not_found_is_no_data_witness:
  "fst (GetAccount mockAPI stub_lib (boundTestStore newMockNomadVariablesAPI) ''le'') =
     (None, None) \<and>
   fst (GetCertificates mockAPI stub_lib (boundTestStore newMockNomadVariablesAPI) ''le'') =
     (None, None)"
proof -
  note b = boundTestStore_fields
  have ra: "GetVariableItems mockAPI (path_Join stub_lib lePath nomadStoreAccountType)
              (backend (client (boundTestStore newMockNomadVariablesAPI))) =
            (Inl ErrVariablePathNotFound, newMockNomadVariablesAPI\<lparr>getVarHitCounter := 1\<rparr>)"
    by (simp add: b mockAPI_def mock_GetVariableItems_def newMockNomadVariablesAPI_def)
  have rc: "GetVariableItems mockAPI (path_Join stub_lib lePath nomadStoreCertsType)
              (backend (client (boundTestStore newMockNomadVariablesAPI))) =
            (Inl ErrVariablePathNotFound, newMockNomadVariablesAPI\<lparr>getVarHitCounter := 1\<rparr>)"
    by (simp add: b mockAPI_def mock_GetVariableItems_def newMockNomadVariablesAPI_def)
  have e: "errors_Is ErrVariablePathNotFound ErrVariablePathNotFound"
    by simp
  from path_not_found_is_no_data
    [OF b(1) b(5), of newMockNomadVariablesAPI mockAPI stub_lib ErrVariablePathNotFound
      "newMockNomadVariablesAPI\<lparr>getVarHitCounter := 1\<rparr>"]
    ra rc e b(2,3)
  show ?thesis by simp
qed

subsection \<open>Binding a resolver to a path\<close>

lemma TrimPrefix_empty_iff:
  "strings_TrimPrefix variablesPath ''nomad://'' = [] \<longleftrightarrow>
     variablesPath = [] \<or> variablesPath = ''nomad://''"
  by (auto simp: strings_TrimPrefix_def strings_HasPrefix_def)

lemma ascii_lower_LE: "map ascii_lower ''LE'' = ''le''"
  by code_simp

text \<open>
  Claim C6. When nothing is left of the hint once the prefix \<^verbatim>\<open>nomad://\<close> is trimmed, the
  hint is the empty string or the prefix alone, and SetResolver binds the owner (under its
  name as given) to \<^verbatim>\<open>nomad/jobs/<job>/<group>/<task>/acme/<lower(owner)>\<close>, where job,
  group and task are what \<^verbatim>\<open>os.Getenv\<close> returns for NOMAD_JOB_NAME, NOMAD_GROUP and
  NOMAD_TASK_NAME in the environment of the call, and the last element is
  \<^verbatim>\<open>strings.ToLower\<close> of the owner: for a name of ASCII bytes, the name with A to Z moved
  to a to z.
\<close>

theorem empty_hint_binds_derived_path:
  assumes "strings_TrimPrefix variablesPath ''nomad://'' = []"
  shows
    "(variablesPath = [] \<or> variablesPath = ''nomad://'') \<and>
     paths (SetResolver L env ns owner variablesPath) owner =
       Some (''nomad/jobs/'' @ os_Getenv env envNomadJob @ ''/'' @ os_Getenv env envNomadGroup @
             ''/'' @ os_Getenv env envNomadTask @ ''/acme/'' @ strings_ToLower L owner) \<and>
     (list_all (\<lambda>c. (of_char c :: nat) < 128) owner \<longrightarrow>
        strings_ToLower L owner = map ascii_lower owner)"
  using assms by (simp add: SetResolver_def Let_def TrimPrefix_empty_iff strings_ToLower_def)

text \<open>
  With job1, group1 and task1 in the environment: owner "le" with the hint
  \<^verbatim>\<open>nomad://\<close> and with the empty hint, and owner "LE", whose path ends in "le".
\<close>

theorem empty_hint_binds_derived_path_witness:
  "strings_TrimPrefix ''nomad://'' ''nomad://'' = [] \<and>
   strings_TrimPrefix [] ''nomad://'' = [] \<and>
   paths (SetResolver stub_lib nomadStoreEnv (newTestStore newMockNomadVariablesAPI) ''le''
            ''nomad://'') ''le'' = Some ''nomad/jobs/job1/group1/task1/acme/le'' \<and>
   paths (SetResolver stub_lib nomadStoreEnv (newTestStore newMockNomadVariablesAPI) ''le''
            []) ''le'' = Some ''nomad/jobs/job1/group1/task1/acme/le'' \<and>
   paths (SetResolver stub_lib nomadStoreEnv (newTestStore newMockNomadVariablesAPI) ''LE''
            []) ''LE'' = Some ''nomad/jobs/job1/group1/task1/acme/le''"
proof -
  have h1: "strings_TrimPrefix ''nomad://'' ''nomad://'' = []"
    and h2: "strings_TrimPrefix [] ''nomad://'' = []"
    by (simp_all add: strings_TrimPrefix_def strings_HasPrefix_def)
  have env: "os_Getenv nomadStoreEnv envNomadJob = ''job1''"
    "os_Getenv nomadStoreEnv envNomadGroup = ''group1''"
    "os_Getenv nomadStoreEnv envNomadTask = ''task1''"
    by (simp_all add: os_Getenv_def nomadStoreEnv_def envNomadToken_def envNomadSecretsDir_def
        envNomadJob_def envNomadGroup_def envNomadTask_def)
  have a: "list_all (\<lambda>c. (of_char c :: nat) < 128) ''le''"
    "list_all (\<lambda>c. (of_char c :: nat) < 128) ''LE''"
    by simp_all
  note t1 = empty_hint_binds_derived_path
    [OF h1, of stub_lib nomadStoreEnv "newTestStore newMockNomadVariablesAPI" "''le''"]
  note t2 = empty_hint_binds_derived_path
    [OF h2, of stub_lib nomadStoreEnv "newTestStore newMockNomadVariablesAPI" "''le''"]
  note t3 = empty_hint_binds_derived_path
    [OF h2, of stub_lib nomadStoreEnv "newTestStore newMockNomadVariablesAPI" "''LE''"]
  have l1: "strings_ToLower stub_lib ''le'' = ''le''"
    using t1 a(1) by (simp add: ascii_lower_def)
  have l3: "strings_ToLower stub_lib ''LE'' = ''le''"
    using t3 a(2) ascii_lower_LE by simp
  from t1 t2 t3 h1 h2 show ?thesis
    by (simp add: env l1 l3)
qed

text \<open>
  Claim C7. When something is left of the hint once the prefix \<^verbatim>\<open>nomad://\<close> is trimmed,
  SetResolver binds the owner to exactly what is left: the store it returns is the given
  one with that single entry of the map of paths set, and neither the environment nor the
  owner's name goes into the path. SetResolver has no error result: for every hint, what it
  returns is the given store with the owner bound to some path.
\<close>

theorem explicit_hint_binds_remainder_verbatim:
  assumes "strings_TrimPrefix variablesPath ''nomad://'' \<noteq> []"
  shows
    "paths (SetResolver L env ns owner variablesPath) owner =
       Some (strings_TrimPrefix variablesPath ''nomad://'') \<and>
     SetResolver L env ns owner variablesPath =
       ns\<lparr>paths := (paths ns)(owner \<mapsto> strings_TrimPrefix variablesPath ''nomad://'')\<rparr> \<and>
     (\<exists>q. SetResolver L env ns owner anyPath = ns\<lparr>paths := (paths ns)(owner \<mapsto> q)\<rparr>)"
proof (intro conjI)
  from assms show "paths (SetResolver L env ns owner variablesPath) owner =
      Some (strings_TrimPrefix variablesPath ''nomad://'')"
    by (simp add: SetResolver_def Let_def)
  from assms show "SetResolver L env ns owner variablesPath =
      ns\<lparr>paths := (paths ns)(owner \<mapsto> strings_TrimPrefix variablesPath ''nomad://'')\<rparr>"
    by (simp add: SetResolver_def Let_def)
  show "\<exists>q. SetResolver L env ns owner anyPath = ns\<lparr>paths := (paths ns)(owner \<mapsto> q)\<rparr>"
    unfolding SetResolver_def Let_def by (rule exI) (rule refl)
qed

text \<open>The test "explicit variables path".\<close>

theorem explicit_hint_binds_remainder_verbatim_witness:
  "strings_TrimPrefix ''nomad://traefik/acme'' ''nomad://'' = ''traefik/acme'' \<and>
   paths (SetResolver stub_lib nomadStoreEnv (newTestStore newMockNomadVariablesAPI) ''pebble''
            ''nomad://traefik/acme'') ''pebble'' = Some ''traefik/acme''"
proof -
  have h: "strings_TrimPrefix ''nomad://traefik/acme'' ''nomad://'' = ''traefik/acme''"
    by (simp add: strings_TrimPrefix_def strings_HasPrefix_def)
  then have n: "strings_TrimPrefix ''nomad://traefik/acme'' ''nomad://'' \<noteq> []"
    by simp
  from explicit_hint_binds_remainder_verbatim
    [OF n, of stub_lib nomadStoreEnv "newTestStore newMockNomadVariablesAPI" "''pebble''"]
    h
  show ?thesis by simp
qed

subsection \<open>What a save writes to the remote store\<close>

lemma calls_put:
  "calls (client (snd (put api marshal ns varPath key item))) =
     (case marshal item of
        Inl err \<Rightarrow> calls (client ns)
      | Inr b \<Rightarrow> calls (client ns) @ [CreateCall \<lparr>Path = varPath, Items = [key \<mapsto> b]\<rparr>])"
  by (simp add: put_def client_Create_def Let_def case_prod_beta split: sum.splits)

lemma calls_SaveAccount:
  "calls (client (snd (SaveAccount api L ns owner A))) =
     calls (client ns) @
     (case A of
        None \<Rightarrow> []
      | Some a \<Rightarrow>
          (case paths ns owner of
             None \<Rightarrow> []
           | Some p \<Rightarrow>
               if p = [] then []
               else (case json_Marshal_Account L A of
                       Inl err \<Rightarrow> []
                     | Inr b \<Rightarrow>
                         [CreateCall \<lparr>Path = path_Join L p nomadStoreAccountType,
                                      Items = [nomadStoreAccountType \<mapsto> b]\<rparr>])))"
  by (simp add: SaveAccount_def Let_def pathForResolverLocked_def case_prod_beta calls_put
      split: option.splits sum.splits)

lemma calls_SaveCertificates:
  "calls (client (snd (SaveCertificates api L ns owner Cs))) =
     calls (client ns) @
     (case paths ns owner of
        None \<Rightarrow> []
      | Some p \<Rightarrow>
          if p = [] then []
          else (case json_Marshal_Certs L Cs of
                  Inl err \<Rightarrow> []
                | Inr b \<Rightarrow>
                    [CreateCall \<lparr>Path = path_Join L p nomadStoreCertsType,
                                 Items = [nomadStoreCertsType \<mapsto> b]\<rparr>]))"
  by (simp add: SaveCertificates_def Let_def pathForResolverLocked_def case_prod_beta calls_put
      split: option.splits sum.splits)

lemma new_calls_append:
  "calls (client ns') = calls (client ns) @ cs \<Longrightarrow> new_calls ns ns' = cs"
  by (simp add: new_calls_def)

text \<open>
  Claim C8. Every remote call that SaveAccount makes is a Create of a variable whose path
  is the owner's path joined with "account" and whose item set is the one-entry map from
  "account" to the encoding of the account that was passed in; and when the owner is bound,
  the account is not nil and the encoder succeeds, SaveAccount makes exactly that one call:
  no read of the items already stored precedes it, and nothing but the new item is sent.
  The same holds for SaveCertificates with "certificates".
\<close>

theorem remote_write_is_one_item:
  "(call \<in> set (new_calls ns (snd (SaveAccount api L ns owner A))) \<longrightarrow>
      (\<exists>p b. paths ns owner = Some p \<and> json_Marshal_Account L A = Inr b \<and>
         call = CreateCall \<lparr>Path = path_Join L p nomadStoreAccountType,
                             Items = [nomadStoreAccountType \<mapsto> b]\<rparr>)) \<and>
   (paths ns owner = Some p \<and> p \<noteq> [] \<and> A = Some a \<and> json_Marshal_Account L A = Inr b \<longrightarrow>
      new_calls ns (snd (SaveAccount api L ns owner A)) =
        [CreateCall \<lparr>Path = path_Join L p nomadStoreAccountType,
                     Items = [nomadStoreAccountType \<mapsto> b]\<rparr>]) \<and>
   (call \<in> set (new_calls ns (snd (SaveCertificates api L ns owner Cs))) \<longrightarrow>
      (\<exists>p b. paths ns owner = Some p \<and> json_Marshal_Certs L Cs = Inr b \<and>
         call = CreateCall \<lparr>Path = path_Join L p nomadStoreCertsType,
                             Items = [nomadStoreCertsType \<mapsto> b]\<rparr>)) \<and>
   (paths ns owner = Some p \<and> p \<noteq> [] \<and> json_Marshal_Certs L Cs = Inr b \<longrightarrow>
      new_calls ns (snd (SaveCertificates api L ns owner Cs)) =
        [CreateCall \<lparr>Path = path_Join L p nomadStoreCertsType,
                     Items = [nomadStoreCertsType \<mapsto> b]\<rparr>])"
proof (intro conjI impI)
  assume "call \<in> set (new_calls ns (snd (SaveAccount api L ns owner A)))"
  then show "\<exists>p b. paths ns owner = Some p \<and> json_Marshal_Account L A = Inr b \<and>
         call = CreateCall \<lparr>Path = path_Join L p nomadStoreAccountType,
                             Items = [nomadStoreAccountType \<mapsto> b]\<rparr>"
    unfolding new_calls_append[OF calls_SaveAccount]
    by (cases A; cases "paths ns owner"; cases "json_Marshal_Account L A")
       (simp_all split: if_splits)
next
  assume "paths ns owner = Some p \<and> p \<noteq> [] \<and> A = Some a \<and> json_Marshal_Account L A = Inr b"
  then show "new_calls ns (snd (SaveAccount api L ns owner A)) =
        [CreateCall \<lparr>Path = path_Join L p nomadStoreAccountType,
                     Items = [nomadStoreAccountType \<mapsto> b]\<rparr>]"
    unfolding new_calls_append[OF calls_SaveAccount] by clarsimp
next
  assume "call \<in> set (new_calls ns (snd (SaveCertificates api L ns owner Cs)))"
  then show "\<exists>p b. paths ns owner = Some p \<and> json_Marshal_Certs L Cs = Inr b \<and>
         call = CreateCall \<lparr>Path = path_Join L p nomadStoreCertsType,
                             Items = [nomadStoreCertsType \<mapsto> b]\<rparr>"
    unfolding new_calls_append[OF calls_SaveCertificates]
    by (cases "paths ns owner"; cases "json_Marshal_Certs L Cs") (simp_all split: if_splits)
next
  assume "paths ns owner = Some p \<and> p \<noteq> [] \<and> json_Marshal_Certs L Cs = Inr b"
  then show "new_calls ns (snd (SaveCertificates api L ns owner Cs)) =
        [CreateCall \<lparr>Path = path_Join L p nomadStoreCertsType,
                     Items = [nomadStoreCertsType \<mapsto> b]\<rparr>]"
    unfolding new_calls_append[OF calls_SaveCertificates] by clarsimp
qed

text \<open>
  Saves over a mock that already holds, at both item paths, a variable with the item of the
  artifact kind and a sibling item: one Create each, of the new item alone, and the variable
  that the mock holds afterwards has no sibling item.
\<close>

theorem remote_write_is_one_item_witness:
  "new_calls (boundTestStore siblingMock)
     (snd (SaveAccount mockAPI stub_lib (boundTestStore siblingMock) ''le'' (Some account1))) =
     [CreateCall \<lparr>Path = ''nomad/jobs/job1/group1/task1/acme/le/account'',
                  Items = [''account'' \<mapsto> ''{account1}'']\<rparr>] \<and>
   CreateCall \<lparr>Path = ''nomad/jobs/job1/group1/task1/acme/le/account'',
               Items = [''account'' \<mapsto> ''{account1}'']\<rparr>
     \<in> set (new_calls (boundTestStore siblingMock)
         (snd (SaveAccount mockAPI stub_lib (boundTestStore siblingMock) ''le''
                 (Some account1)))) \<and>
   map_option Items
     (variables (backend (client
        (snd (SaveAccount mockAPI stub_lib (boundTestStore siblingMock) ''le''
                (Some account1)))))
        ''nomad/jobs/job1/group1/task1/acme/le/account'') =
     Some [''account'' \<mapsto> ''{account1}''] \<and>
   new_calls (boundTestStore siblingMock)
     (snd (SaveCertificates mockAPI stub_lib (boundTestStore siblingMock) ''le''
             (Some [Some cert1]))) =
     [CreateCall \<lparr>Path = ''nomad/jobs/job1/group1/task1/acme/le/certificates'',
                  Items = [''certificates'' \<mapsto> ''[{cert1}]'']\<rparr>] \<and>
   CreateCall \<lparr>Path = ''nomad/jobs/job1/group1/task1/acme/le/certificates'',
               Items = [''certificates'' \<mapsto> ''[{cert1}]'']\<rparr>
     \<in> set (new_calls (boundTestStore siblingMock)
         (snd (SaveCertificates mockAPI stub_lib (boundTestStore siblingMock) ''le''
                 (Some [Some cert1])))) \<and>
   map_option Items
     (variables (backend (client
        (snd (SaveCertificates mockAPI stub_lib (boundTestStore siblingMock) ''le''
                (Some [Some cert1])))))
        ''nomad/jobs/job1/group1/task1/acme/le/certificates'') =
     Some [''certificates'' \<mapsto> ''[{cert1}]'']"
proof -
  note b = boundTestStore_fields
  let ?ns = "boundTestStore siblingMock"
  let ?va = "\<lparr>Path = ''nomad/jobs/job1/group1/task1/acme/le/account'',
               Items = [''account'' \<mapsto> ''{account1}'']\<rparr>"
  let ?vc = "\<lparr>Path = ''nomad/jobs/job1/group1/task1/acme/le/certificates'',
               Items = [''certificates'' \<mapsto> ''[{cert1}]'']\<rparr>"
  have ma: "json_Marshal_Account stub_lib (Some account1) = Inr ''{account1}''"
    and mc: "json_Marshal_Certs stub_lib (Some [Some cert1]) = Inr ''[{cert1}]''"
    by (simp_all add: stub_lib_def)
  note t = remote_write_is_one_item
    [where ns = ?ns and owner = "''le''" and p = lePath and api = mockAPI and L = stub_lib
      and A = "Some account1" and a = account1 and b = "''{account1}''"
      and Cs = "Some [Some cert1]" and call = "CreateCall ?va"]
  note u = remote_write_is_one_item
    [where ns = ?ns and owner = "''le''" and p = lePath and api = mockAPI and L = stub_lib
      and A = "Some account1" and a = account1 and b = "''[{cert1}]''"
      and Cs = "Some [Some cert1]" and call = "CreateCall ?vc"]
  have "new_calls ?ns (snd (SaveAccount mockAPI stub_lib ?ns ''le'' (Some account1))) =
      [CreateCall \<lparr>Path = path_Join stub_lib lePath nomadStoreAccountType,
                   Items = [nomadStoreAccountType \<mapsto> ''{account1}'']\<rparr>]"
    using t b(1,5) ma by blast
  then have na: "new_calls ?ns (snd (SaveAccount mockAPI stub_lib ?ns ''le'' (Some account1))) =
      [CreateCall ?va]"
    unfolding stub_path_Join by (simp add: lePath_def nomadStoreAccountType_def)
  have "new_calls ?ns (snd (SaveCertificates mockAPI stub_lib ?ns ''le''
      (Some [Some cert1]))) =
      [CreateCall \<lparr>Path = path_Join stub_lib lePath nomadStoreCertsType,
                   Items = [nomadStoreCertsType \<mapsto> ''[{cert1}]'']\<rparr>]"
    using u b(1,5) mc by blast
  then have nc: "new_calls ?ns (snd (SaveCertificates mockAPI stub_lib ?ns ''le''
      (Some [Some cert1]))) = [CreateCall ?vc]"
    unfolding stub_path_Join by (simp add: lePath_def nomadStoreCertsType_def)
  have sa: "map_option Items
     (variables (backend (client
        (snd (SaveAccount mockAPI stub_lib ?ns ''le'' (Some account1)))))
        ''nomad/jobs/job1/group1/task1/acme/le/account'') =
     Some [''account'' \<mapsto> ''{account1}'']"
    by (simp add: run_defs)
  have sc: "map_option Items
     (variables (backend (client
        (snd (SaveCertificates mockAPI stub_lib ?ns ''le'' (Some [Some cert1])))))
        ''nomad/jobs/job1/group1/task1/acme/le/certificates'') =
     Some [''certificates'' \<mapsto> ''[{cert1}]'']"
    by (simp add: run_defs)
  show ?thesis
    unfolding na nc using sa sc by simp
qed

subsection \<open>An item set without the item of the artifact kind\<close>

text \<open>
  Claim C9. Let the owner be bound to a non-empty path and have no entry in the cache
  that is read, and let the remote read succeed with an item set that has no entry under
  "account". Then \<^verbatim>\<open>get\<close> hands the empty string to the decoder and returns the
  decoder's verdict on it. When the decoder rejects the empty string, as
  \<^verbatim>\<open>json.Unmarshal\<close> does, GetAccount returns a nil account and the decoder's error, which
  is not the result (nil, nil) of an absent path, and the owner still has no entry in the
  account cache. The same holds for GetCertificates and "certificates".
\<close>

theorem missing_item_key_is_decoding_error:
  assumes "paths ns owner = Some p" and "p \<noteq> []"
  shows
    "(accountCache ns owner = None \<and>
      GetVariableItems api (path_Join L p nomadStoreAccountType) (backend (client ns)) =
        (Inr items, c) \<and>
      items nomadStoreAccountType = None \<longrightarrow>
        fst (get api (json_Unmarshal_Account L) ns (path_Join L p nomadStoreAccountType)
               nomadStoreAccountType) = json_Unmarshal_Account L [] \<and>
        (json_Unmarshal_Account L [] = Inl err \<and> \<not> errors_Is err ErrVariablePathNotFound \<longrightarrow>
           fst (GetAccount api L ns owner) = (None, Some err) \<and>
           fst (GetAccount api L ns owner) \<noteq> (None, None) \<and>
           accountCache (snd (GetAccount api L ns owner)) owner = None)) \<and>
     (certCache ns owner = None \<and>
      GetVariableItems api (path_Join L p nomadStoreCertsType) (backend (client ns)) =
        (Inr items, c) \<and>
      items nomadStoreCertsType = None \<longrightarrow>
        fst (get api (json_Unmarshal_Certs L) ns (path_Join L p nomadStoreCertsType)
               nomadStoreCertsType) = json_Unmarshal_Certs L [] \<and>
        (json_Unmarshal_Certs L [] = Inl err \<and> \<not> errors_Is err ErrVariablePathNotFound \<longrightarrow>
           fst (GetCertificates api L ns owner) = (None, Some err) \<and>
           fst (GetCertificates api L ns owner) \<noteq> (None, None) \<and>
           certCache (snd (GetCertificates api L ns owner)) owner = None))"
  using assms
  by (simp add: GetAccount_uncached_bound GetCertificates_uncached_bound get_remote_items
      items_index_def)

text \<open>
  Reads over a mock whose variables at the two item paths hold the one item "other": the
  decoder's error for the empty input comes back, and the caches stay empty.
\<close>

theorem missing_item_key_is_decoding_error_witness:
  "fst (GetAccount mockAPI stub_lib (boundTestStore otherKeyMock) ''le'') =
     (None, Some (ErrorString ''unexpected end of JSON input'')) \<and>
   accountCache (snd (GetAccount mockAPI stub_lib (boundTestStore otherKeyMock) ''le'')) ''le'' =
     None \<and>
   fst (GetCertificates mockAPI stub_lib (boundTestStore otherKeyMock) ''le'') =
     (None, Some (ErrorString ''unexpected end of JSON input'')) \<and>
   certCache (snd (GetCertificates mockAPI stub_lib (boundTestStore otherKeyMock) ''le'')) ''le'' =
     None"
proof -
  note b = boundTestStore_fields
  have ra: "GetVariableItems mockAPI (path_Join stub_lib lePath nomadStoreAccountType)
              (backend (client (boundTestStore otherKeyMock))) =
            (Inr [''other'' \<mapsto> ''x''], otherKeyMock\<lparr>getVarHitCounter := 1\<rparr>)"
    unfolding stub_path_Join
    by (simp add: b mockAPI_def mock_GetVariableItems_def otherKeyMock_def
        variablesMock_def newMockNomadVariablesAPI_def lePath_def)
  have rc: "GetVariableItems mockAPI (path_Join stub_lib lePath nomadStoreCertsType)
              (backend (client (boundTestStore otherKeyMock))) =
            (Inr [''other'' \<mapsto> ''x''], otherKeyMock\<lparr>getVarHitCounter := 1\<rparr>)"
    unfolding stub_path_Join
    by (simp add: b mockAPI_def mock_GetVariableItems_def otherKeyMock_def
        variablesMock_def newMockNomadVariablesAPI_def lePath_def)
  have k: "[''other'' \<mapsto> ''x''] nomadStoreAccountType = None"
    "[''other'' \<mapsto> ''x''] nomadStoreCertsType = None"
    by (simp_all add: nomadStoreAccountType_def nomadStoreCertsType_def)
  have d: "json_Unmarshal_Account stub_lib [] = Inl (ErrorString ''unexpected end of JSON input'')"
    "json_Unmarshal_Certs stub_lib [] = Inl (ErrorString ''unexpected end of JSON input'')"
    by (simp_all add: stub_lib_def)
  have e: "\<not> errors_Is (ErrorString ''unexpected end of JSON input'') ErrVariablePathNotFound"
    by simp
  from missing_item_key_is_decoding_error
    [OF b(1) b(5), of otherKeyMock mockAPI stub_lib "[''other'' \<mapsto> ''x'']"
      "otherKeyMock\<lparr>getVarHitCounter := 1\<rparr>"
      "ErrorString ''unexpected end of JSON input''"]
    ra rc k d e b(2,3)
  show ?thesis by simp
qed

subsection \<open>Absence is not cached\<close>

lemma GetAccount_not_found_step:
  assumes "paths ns owner = Some p" "p \<noteq> []" "accountCache ns owner = None"
    and "GetVariableItems api (path_Join L p nomadStoreAccountType) (backend (client ns)) =
           (Inl err, c)"
    and "errors_Is err ErrVariablePathNotFound"
  shows "GetAccount api L ns owner =
    ((None, None),
     ns\<lparr>client := \<lparr>backend = c,
          calls = calls (client ns) @
                  [GetVariableItemsCall (path_Join L p nomadStoreAccountType)]\<rparr>\<rparr>)"
  using assms by (simp add: GetAccount_uncached_bound get_remote_error)

lemma GetCertificates_not_found_step:
  assumes "paths ns owner = Some p" "p \<noteq> []" "certCache ns owner = None"
    and "GetVariableItems api (path_Join L p nomadStoreCertsType) (backend (client ns)) =
           (Inl err, c)"
    and "errors_Is err ErrVariablePathNotFound"
  shows "GetCertificates api L ns owner =
    ((None, None),
     ns\<lparr>client := \<lparr>backend = c,
          calls = calls (client ns) @
                  [GetVariableItemsCall (path_Join L p nomadStoreCertsType)]\<rparr>\<rparr>)"
  using assms by (simp add: GetCertificates_uncached_bound get_remote_error)

lemma GetAccount_times_absent:
  assumes inv: "\<And>c. I c \<Longrightarrow> \<exists>err c'.
        GetVariableItems api (path_Join L p nomadStoreAccountType) c = (Inl err, c') \<and>
        errors_Is err ErrVariablePathNotFound \<and> I c'"
  shows "paths ns owner = Some p \<Longrightarrow> p \<noteq> [] \<Longrightarrow> accountCache ns owner = None \<Longrightarrow>
         I (backend (client ns)) \<Longrightarrow>
         fst (GetAccount_times n api L ns owner) = replicate n (None, None) \<and>
         accountCache (snd (GetAccount_times n api L ns owner)) = accountCache ns \<and>
         certCache (snd (GetAccount_times n api L ns owner)) = certCache ns \<and>
         paths (snd (GetAccount_times n api L ns owner)) = paths ns \<and>
         I (backend (client (snd (GetAccount_times n api L ns owner)))) \<and>
         calls (client (snd (GetAccount_times n api L ns owner))) =
           calls (client ns) @
           replicate n (GetVariableItemsCall (path_Join L p nomadStoreAccountType))"
proof (induction n arbitrary: ns)
  case 0
  then show ?case by simp
next
  case (Suc n)
  from inv[OF Suc.prems(4)] obtain err c where
    r: "GetVariableItems api (path_Join L p nomadStoreAccountType) (backend (client ns)) =
          (Inl err, c)"
    and e: "errors_Is err ErrVariablePathNotFound" and i: "I c"
    by blast
  let ?vp = "path_Join L p nomadStoreAccountType"
  let ?ns1 = "ns\<lparr>client := \<lparr>backend = c,
                 calls = calls (client ns) @ [GetVariableItemsCall ?vp]\<rparr>\<rparr>"
  have step: "GetAccount api L ns owner = ((None, None), ?ns1)"
    using Suc.prems(1-3) r e by (rule GetAccount_not_found_step)
  have ih: "fst (GetAccount_times n api L ?ns1 owner) = replicate n (None, None) \<and>
         accountCache (snd (GetAccount_times n api L ?ns1 owner)) = accountCache ?ns1 \<and>
         certCache (snd (GetAccount_times n api L ?ns1 owner)) = certCache ?ns1 \<and>
         paths (snd (GetAccount_times n api L ?ns1 owner)) = paths ?ns1 \<and>
         I (backend (client (snd (GetAccount_times n api L ?ns1 owner)))) \<and>
         calls (client (snd (GetAccount_times n api L ?ns1 owner))) =
           calls (client ?ns1) @ replicate n (GetVariableItemsCall ?vp)"
    using Suc.prems(1-3) i by (intro Suc.IH) simp_all
  show ?case
    using ih by (simp add: step case_prod_beta)
qed

lemma GetCertificates_times_absent:
  assumes inv: "\<And>c. J c \<Longrightarrow> \<exists>err c'.
        GetVariableItems api (path_Join L p nomadStoreCertsType) c = (Inl err, c') \<and>
        errors_Is err ErrVariablePathNotFound \<and> J c'"
  shows "paths ns owner = Some p \<Longrightarrow> p \<noteq> [] \<Longrightarrow> certCache ns owner = None \<Longrightarrow>
         J (backend (client ns)) \<Longrightarrow>
         fst (GetCertificates_times n api L ns owner) = replicate n (None, None) \<and>
         accountCache (snd (GetCertificates_times n api L ns owner)) = accountCache ns \<and>
         certCache (snd (GetCertificates_times n api L ns owner)) = certCache ns \<and>
         paths (snd (GetCertificates_times n api L ns owner)) = paths ns \<and>
         J (backend (client (snd (GetCertificates_times n api L ns owner)))) \<and>
         calls (client (snd (GetCertificates_times n api L ns owner))) =
           calls (client ns) @
           replicate n (GetVariableItemsCall (path_Join L p nomadStoreCertsType))"
proof (induction n arbitrary: ns)
  case 0
  then show ?case by simp
next
  case (Suc n)
  from inv[OF Suc.prems(4)] obtain err c where
    r: "GetVariableItems api (path_Join L p nomadStoreCertsType) (backend (client ns)) =
          (Inl err, c)"
    and e: "errors_Is err ErrVariablePathNotFound" and i: "J c"
    by blast
  let ?vp = "path_Join L p nomadStoreCertsType"
  let ?ns1 = "ns\<lparr>client := \<lparr>backend = c,
                 calls = calls (client ns) @ [GetVariableItemsCall ?vp]\<rparr>\<rparr>"
  have step: "GetCertificates api L ns owner = ((None, None), ?ns1)"
    using Suc.prems(1-3) r e by (rule GetCertificates_not_found_step)
  have ih: "fst (GetCertificates_times n api L ?ns1 owner) = replicate n (None, None) \<and>
         accountCache (snd (GetCertificates_times n api L ?ns1 owner)) = accountCache ?ns1 \<and>
         certCache (snd (GetCertificates_times n api L ?ns1 owner)) = certCache ?ns1 \<and>
         paths (snd (GetCertificates_times n api L ?ns1 owner)) = paths ?ns1 \<and>
         J (backend (client (snd (GetCertificates_times n api L ?ns1 owner)))) \<and>
         calls (client (snd (GetCertificates_times n api L ?ns1 owner))) =
           calls (client ?ns1) @ replicate n (GetVariableItemsCall ?vp)"
    using Suc.prems(1-3) i by (intro Suc.IH) simp_all
  show ?case
    using ih by (simp add: step case_prod_beta)
qed

text \<open>
  Claim C10. Let the owner be bound to a non-empty path and have no entry in the cache
  that is read, and let the remote store answer path-not-found to every read of the
  owner's item path for as long as nothing is written (\<open>I\<close> is a property of the state
  behind the client that a read keeps and under which a read answers path-not-found).
  Then each of \<open>n\<close> calls of GetAccount in a row returns (nil, nil), the maps of the
  store are after the calls what they were before, and the calls have made exactly \<open>n\<close>
  remote reads of the item path: the read that found nothing left no trace in the cache,
  so the next call reads again. The same holds for GetCertificates.
\<close>

theorem absence_is_never_cached:
  assumes "paths ns owner = Some p" and "p \<noteq> []"
  shows
    "(accountCache ns owner = None \<and> I (backend (client ns)) \<and>
      (\<forall>c. I c \<longrightarrow>
         (\<exists>err c'. GetVariableItems api (path_Join L p nomadStoreAccountType) c = (Inl err, c') \<and>
            errors_Is err ErrVariablePathNotFound \<and> I c')) \<longrightarrow>
        fst (GetAccount_times n api L ns owner) = replicate n (None, None) \<and>
        accountCache (snd (GetAccount_times n api L ns owner)) = accountCache ns \<and>
        certCache (snd (GetAccount_times n api L ns owner)) = certCache ns \<and>
        paths (snd (GetAccount_times n api L ns owner)) = paths ns \<and>
        new_calls ns (snd (GetAccount_times n api L ns owner)) =
          replicate n (GetVariableItemsCall (path_Join L p nomadStoreAccountType))) \<and>
     (certCache ns owner = None \<and> J (backend (client ns)) \<and>
      (\<forall>c. J c \<longrightarrow>
         (\<exists>err c'. GetVariableItems api (path_Join L p nomadStoreCertsType) c = (Inl err, c') \<and>
            errors_Is err ErrVariablePathNotFound \<and> J c')) \<longrightarrow>
        fst (GetCertificates_times n api L ns owner) = replicate n (None, None) \<and>
        accountCache (snd (GetCertificates_times n api L ns owner)) = accountCache ns \<and>
        certCache (snd (GetCertificates_times n api L ns owner)) = certCache ns \<and>
        paths (snd (GetCertificates_times n api L ns owner)) = paths ns \<and>
        new_calls ns (snd (GetCertificates_times n api L ns owner)) =
          replicate n (GetVariableItemsCall (path_Join L p nomadStoreCertsType)))"
proof (intro conjI impI)
  assume h: "accountCache ns owner = None \<and> I (backend (client ns)) \<and>
      (\<forall>c. I c \<longrightarrow>
         (\<exists>err c'. GetVariableItems api (path_Join L p nomadStoreAccountType) c = (Inl err, c') \<and>
            errors_Is err ErrVariablePathNotFound \<and> I c'))"
  then have inv: "\<And>c. I c \<Longrightarrow> \<exists>err c'.
        GetVariableItems api (path_Join L p nomadStoreAccountType) c = (Inl err, c') \<and>
        errors_Is err ErrVariablePathNotFound \<and> I c'"
    by blast
  from h have u: "accountCache ns owner = None" and i: "I (backend (client ns))"
    by blast+
  note r = GetAccount_times_absent [of I api L p ns owner n, OF inv assms u i]
  from r show "fst (GetAccount_times n api L ns owner) = replicate n (None, None)"
    by blast
  from r show "accountCache (snd (GetAccount_times n api L ns owner)) = accountCache ns"
    by blast
  from r show "certCache (snd (GetAccount_times n api L ns owner)) = certCache ns"
    by blast
  from r show "paths (snd (GetAccount_times n api L ns owner)) = paths ns"
    by blast
  from r show "new_calls ns (snd (GetAccount_times n api L ns owner)) =
      replicate n (GetVariableItemsCall (path_Join L p nomadStoreAccountType))"
    by (simp add: new_calls_def)
next
  assume h: "certCache ns owner = None \<and> J (backend (client ns)) \<and>
      (\<forall>c. J c \<longrightarrow>
         (\<exists>err c'. GetVariableItems api (path_Join L p nomadStoreCertsType) c = (Inl err, c') \<and>
            errors_Is err ErrVariablePathNotFound \<and> J c'))"
  then have inv: "\<And>c. J c \<Longrightarrow> \<exists>err c'.
        GetVariableItems api (path_Join L p nomadStoreCertsType) c = (Inl err, c') \<and>
        errors_Is err ErrVariablePathNotFound \<and> J c'"
    by blast
  from h have u: "certCache ns owner = None" and i: "J (backend (client ns))"
    by blast+
  note r = GetCertificates_times_absent [of J api L p ns owner n, OF inv assms u i]
  from r show "fst (GetCertificates_times n api L ns owner) = replicate n (None, None)"
    by blast
  from r show "accountCache (snd (GetCertificates_times n api L ns owner)) = accountCache ns"
    by blast
  from r show "certCache (snd (GetCertificates_times n api L ns owner)) = certCache ns"
    by blast
  from r show "paths (snd (GetCertificates_times n api L ns owner)) = paths ns"
    by blast
  from r show "new_calls ns (snd (GetCertificates_times n api L ns owner)) =
      replicate n (GetVariableItemsCall (path_Join L p nomadStoreCertsType))"
    by (simp add: new_calls_def)
qed

text \<open>
  The tests "account is absent" and "certs are absent", read twice: both reads return
  (nil, nil), the caches stay empty, and the mock has counted two reads.
\<close>

theorem absence_is_never_cached_witness:
  "fst (GetAccount_times (Suc (Suc 0)) mockAPI stub_lib
          (boundTestStore newMockNomadVariablesAPI) ''le'') = [(None, None), (None, None)] \<and>
   accountCache (snd (GetAccount_times (Suc (Suc 0)) mockAPI stub_lib
          (boundTestStore newMockNomadVariablesAPI) ''le'')) ''le'' = None \<and>
   new_calls (boundTestStore newMockNomadVariablesAPI)
     (snd (GetAccount_times (Suc (Suc 0)) mockAPI stub_lib
          (boundTestStore newMockNomadVariablesAPI) ''le'')) =
     [GetVariableItemsCall ''nomad/jobs/job1/group1/task1/acme/le/account'',
      GetVariableItemsCall ''nomad/jobs/job1/group1/task1/acme/le/account''] \<and>
   getVarHitCounter (backend (client (snd (GetAccount_times (Suc (Suc 0)) mockAPI stub_lib
          (boundTestStore newMockNomadVariablesAPI) ''le'')))) = 2 \<and>
   fst (GetCertificates_times (Suc (Suc 0)) mockAPI stub_lib
          (boundTestStore newMockNomadVariablesAPI) ''le'') = [(None, None), (None, None)] \<and>
   certCache (snd (GetCertificates_times (Suc (Suc 0)) mockAPI stub_lib
          (boundTestStore newMockNomadVariablesAPI) ''le'')) ''le'' = None \<and>
   new_calls (boundTestStore newMockNomadVariablesAPI)
     (snd (GetCertificates_times (Suc (Suc 0)) mockAPI stub_lib
          (boundTestStore newMockNomadVariablesAPI) ''le'')) =
     [GetVariableItemsCall ''nomad/jobs/job1/group1/task1/acme/le/certificates'',
      GetVariableItemsCall ''nomad/jobs/job1/group1/task1/acme/le/certificates''] \<and>
   getVarHitCounter (backend (client (snd (GetCertificates_times (Suc (Suc 0)) mockAPI stub_lib
          (boundTestStore newMockNomadVariablesAPI) ''le'')))) = 2"
proof -
  note b = boundTestStore_fields
  let ?ns = "boundTestStore newMockNomadVariablesAPI"
  let ?I = "\<lambda>m. getVarItemsErr m = None \<and> variables m = Map.empty"
  have i0: "?I (backend (client ?ns))"
    by (simp add: b newMockNomadVariablesAPI_def)
  have inva: "\<forall>c. ?I c \<longrightarrow>
      (\<exists>err c'. GetVariableItems mockAPI (path_Join stub_lib lePath nomadStoreAccountType) c =
         (Inl err, c') \<and> errors_Is err ErrVariablePathNotFound \<and> ?I c')"
    by (simp add: mockAPI_def mock_GetVariableItems_def Let_def)
  have invc: "\<forall>c. ?I c \<longrightarrow>
      (\<exists>err c'. GetVariableItems mockAPI (path_Join stub_lib lePath nomadStoreCertsType) c =
         (Inl err, c') \<and> errors_Is err ErrVariablePathNotFound \<and> ?I c')"
    by (simp add: mockAPI_def mock_GetVariableItems_def Let_def)
  have bp: "paths ?ns ''le'' = Some lePath"
    by (rule b(1))
  note t = absence_is_never_cached
    [OF bp b(5), where I = ?I and J = ?I and api = mockAPI and L = stub_lib
      and n = "Suc (Suc 0)"]
  have ra: "fst (GetAccount_times (Suc (Suc 0)) mockAPI stub_lib ?ns ''le'') =
        replicate (Suc (Suc 0)) (None, None) \<and>
      accountCache (snd (GetAccount_times (Suc (Suc 0)) mockAPI stub_lib ?ns ''le'')) =
        accountCache ?ns \<and>
      new_calls ?ns (snd (GetAccount_times (Suc (Suc 0)) mockAPI stub_lib ?ns ''le'')) =
        replicate (Suc (Suc 0))
          (GetVariableItemsCall (path_Join stub_lib lePath nomadStoreAccountType))"
    using t b(2) i0 inva by blast
  have rc: "fst (GetCertificates_times (Suc (Suc 0)) mockAPI stub_lib ?ns ''le'') =
        replicate (Suc (Suc 0)) (None, None) \<and>
      certCache (snd (GetCertificates_times (Suc (Suc 0)) mockAPI stub_lib ?ns ''le'')) =
        certCache ?ns \<and>
      new_calls ?ns (snd (GetCertificates_times (Suc (Suc 0)) mockAPI stub_lib ?ns ''le'')) =
        replicate (Suc (Suc 0))
          (GetVariableItemsCall (path_Join stub_lib lePath nomadStoreCertsType))"
    using t b(3) i0 invc by blast
  have ha: "getVarHitCounter (backend (client (snd (GetAccount_times (Suc (Suc 0)) mockAPI
      stub_lib ?ns ''le'')))) = 2"
    by (simp add: run_defs)
  have hc: "getVarHitCounter (backend (client (snd (GetCertificates_times (Suc (Suc 0)) mockAPI
      stub_lib ?ns ''le'')))) = 2"
    by (simp add: run_defs)
  have p: "path_Join stub_lib lePath nomadStoreAccountType =
      ''nomad/jobs/job1/group1/task1/acme/le/account''"
    "path_Join stub_lib lePath nomadStoreCertsType =
      ''nomad/jobs/job1/group1/task1/acme/le/certificates''"
    unfolding stub_path_Join by (simp_all add: lePath_def)
  show ?thesis
    using ra rc ha hc by (simp add: p b(2,3))
qed


end
